theory Spec2Isabelle
  imports Main "HOL-Library.Sublist" "HOL-Library.Char_ord" "HOL-Library.List_Lexorder"
begin

section \<open>Strings and the Qt text helpers the loader uses\<close>

text \<open>
  A \<open>QString\<close> is modelled as a \<open>string\<close>: one list element per character. The null
  string \<open>QString{}\<close> and the empty string are both \<open>[]\<close> (the source only asks
  \<open>isEmpty()\<close>, which is true of both).
\<close>

definition LF :: char where
  "LF = CHR 0x0A"

definition is_digit :: "char \<Rightarrow> bool" where
  "is_digit c = (48 \<le> (of_char c :: nat) \<and> (of_char c :: nat) \<le> 57)"

text \<open>\<open>QStringList::join(sep)\<close>.\<close>

fun join :: "string \<Rightarrow> string list \<Rightarrow> string" where
  "join sep [] = []"
| "join sep [x] = x"
| "join sep (x # y # ys) = x @ sep @ join sep (y # ys)"

text \<open>Decimal rendering of an unsigned number, as \<open>QString::arg(uint)\<close> inserts it.\<close>

definition digit_char :: "nat \<Rightarrow> char" where
  "digit_char d = ''0123456789'' ! d"

function number :: "nat \<Rightarrow> string" where
  "number n = (if n < 10 then [digit_char n] else number (n div 10) @ [digit_char (n mod 10)])"
  by pat_completeness auto
termination
  by (relation "measure (\<lambda>n. n)") auto

text \<open>
  \<open>QString::toUInt()\<close> (base 10, no \<open>ok\<close> pointer) on the strings the constructor gives
  it, which are the non-empty digit runs captured by \<open>(\d+)\<close>: the decimal value when it
  fits 32 bits, and 0 when the conversion fails. Any other string is mapped to 0 here.
\<close>

definition digit_value :: "char \<Rightarrow> nat" where
  "digit_value c = of_char c - 48"

definition decimal :: "string \<Rightarrow> nat" where
  "decimal s = foldl (\<lambda>a c. 10 * a + digit_value c) 0 s"

definition toUInt :: "string \<Rightarrow> nat" where
  "toUInt s =
     (if s \<noteq> [] \<and> list_all is_digit s \<and> decimal s < 2 ^ 32 then decimal s else 0)"


section \<open>Regular expressions\<close>

text \<open>
  \<open>QRegularExpression\<close> is Perl-compatible: \<open>match(subject)\<close> looks for the leftmost
  match starting at any offset, quantifiers are greedy and give characters back on
  failure, \<open>.\<close> is any character but a line feed, \<open>\d\<close> is an ASCII digit (no pattern
  option is set), \<open>$\<close> holds at the end of the subject and before a final line feed,
  and an atomic group \<open>(?>...)\<close> keeps its first match. The three patterns of the
  loader are sequences of the following items; \<open>Digits\<close> is the capturing group
  \<open>(\d+)\<close>, \<open>OptAtomic g\<close> is \<open>(?>g)?\<close>.
\<close>

datatype rx_item =
    Lit char
  | Dot
  | Class "(char \<times> char) list"
  | Digits
  | OptAtomic "rx_item list"
  | Bol
  | Eol

fun in_class :: "(char \<times> char) list \<Rightarrow> char \<Rightarrow> bool" where
  "in_class [] c = False"
| "in_class ((lo, hi) # rs) c =
     (((of_char lo :: nat) \<le> of_char c \<and> (of_char c :: nat) \<le> of_char hi) \<or> in_class rs c)"

text \<open>The longest run first, then shorter ones down to a single character.\<close>

fun first_some :: "(nat \<Rightarrow> 'a option) \<Rightarrow> nat \<Rightarrow> 'a option" where
  "first_some f 0 = None"
| "first_some f (Suc n) = (case f (Suc n) of Some r \<Rightarrow> Some r | None \<Rightarrow> first_some f n)"

fun groups :: "rx_item list \<Rightarrow> nat" where
  "groups [] = 0"
| "groups (Digits # r) = Suc (groups r)"
| "groups (OptAtomic g # r) = groups g + groups r"
| "groups (_ # r) = groups r"

text \<open>
  \<open>match_items p b s caps\<close> matches the items \<open>p\<close> at the front of \<open>s\<close>; \<open>b\<close> says
  that \<open>s\<close> is the whole subject (the position is offset 0); \<open>caps\<close> are the groups
  captured so far. The result is the captured groups and the unread rest of the subject.
  A group that took no part in the match is captured as the empty string.
\<close>

fun match_items ::
  "rx_item list \<Rightarrow> bool \<Rightarrow> string \<Rightarrow> string list \<Rightarrow> (string list \<times> string) option" where
  "match_items [] b s caps = Some (caps, s)"
| "match_items (Lit c # r) b s caps =
     (case s of [] \<Rightarrow> None | x # xs \<Rightarrow> if x = c then match_items r False xs caps else None)"
| "match_items (Dot # r) b s caps =
     (case s of [] \<Rightarrow> None | x # xs \<Rightarrow> if x \<noteq> LF then match_items r False xs caps else None)"
| "match_items (Class cs # r) b s caps =
     (case s of [] \<Rightarrow> None
      | x # xs \<Rightarrow> if in_class cs x then match_items r False xs caps else None)"
| "match_items (Digits # r) b s caps =
     first_some (\<lambda>k. match_items r False (drop k s) (caps @ [take k s]))
       (length (takeWhile is_digit s))"
| "match_items (OptAtomic g # r) b s caps =
     (case match_items g b s caps of
        None \<Rightarrow> match_items r b s (caps @ replicate (groups g) [])
      | Some (caps', s') \<Rightarrow>
          (case match_items r (b \<and> length s' = length s) s' caps' of
             Some res \<Rightarrow> Some res
           | None \<Rightarrow> match_items r b s (caps @ replicate (groups g) [])))"
| "match_items (Bol # r) b s caps = (if b then match_items r b s caps else None)"
| "match_items (Eol # r) b s caps =
     (if s = [] \<or> s = [LF] then match_items r b s caps else None)"

fun search :: "rx_item list \<Rightarrow> bool \<Rightarrow> string \<Rightarrow> string list option" where
  "search p b s =
     (case match_items p b s [] of
        Some (caps, rest) \<Rightarrow> Some caps
      | None \<Rightarrow> (case s of [] \<Rightarrow> None | x # xs \<Rightarrow> search p False xs))"

text \<open>
  \<open>QRegularExpression::match\<close>: \<open>None\<close> is \<open>!hasMatch()\<close>, \<open>Some caps\<close> is a match
  whose \<open>captured(i)\<close> is \<open>caps ! (i - 1)\<close>.
\<close>

definition rx_match :: "rx_item list \<Rightarrow> string \<Rightarrow> string list option" where
  "rx_match p s = search p True s"

definition hasMatch :: "string list option \<Rightarrow> bool" where
  "hasMatch m = (case m of None \<Rightarrow> False | Some caps \<Rightarrow> True)"

text \<open>\<^verbatim>\<open>org.albert.PluginInterface/(\d+).(\d+)\<close>\<close>

definition regex_iid :: "rx_item list" where
  "regex_iid =
     [Lit CHR ''o'', Lit CHR ''r'', Lit CHR ''g'', Dot,
      Lit CHR ''a'', Lit CHR ''l'', Lit CHR ''b'', Lit CHR ''e'', Lit CHR ''r'', Lit CHR ''t'', Dot,
      Lit CHR ''P'', Lit CHR ''l'', Lit CHR ''u'', Lit CHR ''g'', Lit CHR ''i'', Lit CHR ''n'',
      Lit CHR ''I'', Lit CHR ''n'', Lit CHR ''t'', Lit CHR ''e'', Lit CHR ''r'', Lit CHR ''f'',
      Lit CHR ''a'', Lit CHR ''c'', Lit CHR ''e'', Lit CHR ''/'',
      Digits, Dot, Digits]"

definition regex_iid_pattern :: string where
  "regex_iid_pattern =
     ''org.albert.PluginInterface/('' @ [CHR 0x5C] @ ''d+).('' @ [CHR 0x5C] @ ''d+)''"

text \<open>\<^verbatim>\<open>^(\d+)(?>\.(\d+))?\.(\d+)$\<close>\<close>

definition regex_version :: "rx_item list" where
  "regex_version =
     [Bol, Digits, OptAtomic [Lit CHR ''.'', Digits], Lit CHR ''.'', Digits, Eol]"

text \<open>\<^verbatim>\<open>[a-z0-9_]\<close>\<close>

definition regex_id :: "rx_item list" where
  "regex_id = [Class [(CHR ''a'', CHR ''z''), (CHR ''0'', CHR ''9''), (CHR ''_'', CHR ''_'')]]"


section \<open>Plugin metadata\<close>

text \<open>
  A JSON value as the constructor reads it: \<open>toString()\<close> gives the text of a string
  value and the empty string for every other value, also for the undefined value that
  \<open>json[k]\<close> yields for a missing key. \<open>Other\<close> holds any value that is not a string.
\<close>

datatype 'j QJsonValue = String string | Other 'j

type_synonym 'j QJsonObject = "string \<rightharpoonup> 'j QJsonValue"

definition toString :: "'j QJsonValue option \<Rightarrow> string" where
  "toString v = (case v of Some (String s) \<Rightarrow> s | _ \<Rightarrow> [])"

text \<open>
  The system locale: \<open>locale_name\<close> is \<open>QLocale::name()\<close> (language and territory, as in
  \<open>de_AT\<close>), \<open>languageCode\<close> is \<open>QLocale::languageToCode(locale.language())\<close>.
\<close>

record QLocale =
  locale_name :: string
  languageCode :: string

text \<open>\<open>QStringLiteral("%1[%2]").arg(key, x)\<close>\<close>

definition localized_key :: "string \<Rightarrow> string \<Rightarrow> string" where
  "localized_key key x = key @ ''['' @ x @ '']''"

definition fetchLocalizedMetadata :: "QLocale \<Rightarrow> 'j QJsonObject \<Rightarrow> string \<Rightarrow> string" where
  "fetchLocalizedMetadata locale json key =
     (let v = toString (json (localized_key key (locale_name locale))) in
      if v \<noteq> [] then v
      else
        let v = toString (json (localized_key key (languageCode locale))) in
        if v \<noteq> [] then v
        else toString (json key))"

text \<open>
  The fallback chain in the words of the specification: the first of the entries
  \<open>key[lang_COUNTRY]\<close>, \<open>key[lang]\<close> that exists and is a non-empty text, otherwise
  the value of the plain key.
\<close>

definition nonempty_entry :: "'j QJsonObject \<Rightarrow> string \<Rightarrow> string option" where
  "nonempty_entry json k =
     (case json k of Some (String v) \<Rightarrow> (if v = [] then None else Some v) | _ \<Rightarrow> None)"

definition spec_locale_chain :: "QLocale \<Rightarrow> 'j QJsonObject \<Rightarrow> string \<Rightarrow> string" where
  "spec_locale_chain locale json key =
     (case List.map_filter (nonempty_entry json)
             [localized_key key (locale_name locale), localized_key key (languageCode locale)] of
        v # _ \<Rightarrow> v
      | [] \<Rightarrow> (case json key of Some (String v) \<Rightarrow> v | _ \<Rightarrow> []))"

datatype LoadType = Frontend | NoUnload | User

text \<open>
  The struct \<open>PluginMetaData\<close>, with the fields the constructor fills. Its field
  \<open>id\<close> is \<open>plugin_id\<close> here, since \<open>id\<close> is the identity function of HOL.
\<close>

record PluginMetaData =
  iid :: string
  plugin_id :: string
  version :: string
  name :: string
  description :: string
  license :: string
  url :: string
  authors :: "string list"
  runtime_dependencies :: "string list"
  binary_dependencies :: "string list"
  third_party_credits :: "string list"
  load_type :: LoadType

text \<open>
  The native plugin loader \<open>QPluginLoader\<close> of Qt, as far as the loader class uses it:
  the two entries of \<open>metaData()\<close> that are read (\<open>IID\<close>, and \<open>MetaData\<close> as an
  object), what \<open>instance()\<close> returns (the root object, or nothing when the library
  cannot be loaded), whether \<open>unload()\<close> succeeds, and the text of \<open>errorString()\<close>.
\<close>

record QObject =
  address :: nat
  is_PluginInstance :: bool

record 'j QPluginLoader =
  metaData_IID :: "'j QJsonValue option"
  metaData_MetaData :: "'j QJsonObject"
  instance_result :: "QObject option"
  unload_result :: bool
  errorString :: string

text \<open>
  The section \<open>Extract metadata\<close> of the constructor, after the check of the IID.
  \<open>toStringList\<close> stands for Qt's \<open>QJsonValue::toVariant().toStringList()\<close>.
\<close>

definition extract_metadata ::
  "('j QJsonValue option \<Rightarrow> string list) \<Rightarrow> QLocale \<Rightarrow> string \<Rightarrow> 'j QJsonObject \<Rightarrow> PluginMetaData" where
  "extract_metadata toStringList locale the_iid rawMetadata =
     \<lparr> iid = the_iid,
       plugin_id = toString (rawMetadata ''id''),
       version = toString (rawMetadata ''version''),
       name = fetchLocalizedMetadata locale rawMetadata ''name'',
       description = fetchLocalizedMetadata locale rawMetadata ''description'',
       license = toString (rawMetadata ''license''),
       url = toString (rawMetadata ''url''),
       authors = toStringList (rawMetadata ''authors''),
       runtime_dependencies = toStringList (rawMetadata ''runtime_dependencies''),
       binary_dependencies = toStringList (rawMetadata ''binary_dependencies''),
       third_party_credits = toStringList (rawMetadata ''credits''),
       load_type =
         (let lt = toString (rawMetadata ''loadtype'') in
          if lt = ''frontend'' then Frontend
          else if lt = ''nounload'' then NoUnload
          else User) \<rparr>"

text \<open>
  The section \<open>Validate metadata\<close>: the list \<open>errors\<close> as it stands before the final
  test. \<open>vmajor\<close> and \<open>vminor\<close> are the macros \<open>ALBERT_VERSION_MAJOR\<close> and
  \<open>ALBERT_VERSION_MINOR\<close> of \<open>albert/config.h\<close>.
\<close>

definition iid_errors :: "nat \<Rightarrow> nat \<Rightarrow> string \<Rightarrow> string list" where
  "iid_errors vmajor vminor the_iid =
     (case rx_match regex_iid the_iid of
        None \<Rightarrow>
          [''Invalid IID pattern: '' @ [CHR 0x27] @ [] @ [CHR 0x27] @ ''. Expected ''
             @ [CHR 0x27] @ regex_iid_pattern @ [CHR 0x27] @ ''.'']
      | Some caps \<Rightarrow>
          (let plugin_iid_major = toUInt (caps ! 0) in
           if plugin_iid_major \<noteq> vmajor then
             [''Incompatible major version: '' @ number plugin_iid_major
                @ ''. Expected: '' @ number vmajor @ ''.'']
           else
             let plugin_iid_minor = toUInt (caps ! 1) in
             if plugin_iid_minor > vminor then
               [''Incompatible minor version: '' @ number plugin_iid_minor
                  @ ''. Supported up to: '' @ number vminor @ ''.'']
             else []))"

definition validate_metadata :: "nat \<Rightarrow> nat \<Rightarrow> PluginMetaData \<Rightarrow> string list" where
  "validate_metadata vmajor vminor md =
     iid_errors vmajor vminor (iid md)
     @ (if \<not> hasMatch (rx_match regex_version (version md))
        then [''Invalid version scheme. Use '<version>.<patch>'.''] else [])
     @ (if \<not> hasMatch (rx_match regex_id (plugin_id md))
        then [''Invalid plugin id. Use [a-z0-9_].''] else [])
     @ (if name md = [] then [[CHR 0x27] @ ''name'' @ [CHR 0x27] @ '' must not be empty.''] else [])
     @ (if description md = []
        then [[CHR 0x27] @ ''description'' @ [CHR 0x27] @ '' must not be empty.''] else [])"


section \<open>The loader\<close>

text \<open>
  Modelled from the spec: the enumeration \<open>PluginState\<close> of the base class
  \<open>PluginLoader\<close> is declared outside the files at hand. The specification lists the
  states Unloaded, Loading, Loaded, Unloading and Failed.
\<close>

datatype PluginState = Unloaded | Loading | Loaded | Unloading | Failed

text \<open>
  The members of \<open>QtPluginLoader\<close>, with \<open>path\<close> and \<open>state\<close> of its base class.
  The members \<open>provider_\<close>, \<open>metadata_\<close> and \<open>instance_\<close> carry the suffix \<open>_m\<close>
  (a name cannot end with an underscore here). \<open>instance_m\<close> is a pointer: \<open>None\<close>
  is \<open>nullptr\<close>.
\<close>

record ('j, 'p) QtPluginLoader =
  path :: string
  state :: PluginState
  loader :: "'j QPluginLoader"
  provider_m :: 'p
  metadata_m :: PluginMetaData
  instance_m :: "QObject option"

text \<open>
  The constructor. An exception \<open>runtime_error(msg)\<close> is the result \<open>Inl msg\<close>. The
  messages consist of ASCII characters, so \<open>toUtf8().constData()\<close> keeps them as they
  are. \<open>state0\<close> is the state the base class constructor \<open>PluginLoader(p)\<close> starts in.
  \<open>setLoadHints\<close> changes nothing that is modelled here.
\<close>

definition QtPluginLoader_ctor ::
  "('j QJsonValue option \<Rightarrow> string list) \<Rightarrow> QLocale \<Rightarrow> nat \<Rightarrow> nat \<Rightarrow> PluginState \<Rightarrow>
   'p \<Rightarrow> string \<Rightarrow> 'j QPluginLoader \<Rightarrow> string + ('j, 'p) QtPluginLoader" where
  "QtPluginLoader_ctor toStringList locale vmajor vminor state0 provider p ql =
     (let the_iid = toString (metaData_IID ql) in
      if the_iid = [] then Inl ''Not an albert plugin''
      else
        let md = extract_metadata toStringList locale the_iid (metaData_MetaData ql);
            errors = validate_metadata vmajor vminor md
        in if errors \<noteq> [] then Inl (join '', '' errors)
           else Inr \<lparr> path = p, state = state0, loader = ql, provider_m = provider,
                      metadata_m = md, instance_m = None \<rparr>)"

text \<open>
  What the loader does to the world outside its own members, in the order it happens:
  the deletion of a plugin instance, the call of \<open>QPluginLoader::unload\<close>, and a line
  written with \<open>WARN\<close> (the items streamed into it).
\<close>

datatype effect =
    DeleteInstance QObject
  | NativeUnload
  | Warning "string list"

text \<open>The destructor: the effects it has.\<close>

definition QtPluginLoader_dtor :: "('j, 'p) QtPluginLoader \<Rightarrow> effect list" where
  "QtPluginLoader_dtor l =
     (if state l \<noteq> Unloaded
      then [Warning [''Logic error: QtPluginLoader destroyed in non Unloaded state:'',
                     plugin_id (metadata_m l)]]
      else [])"

text \<open>\<open>dynamic_cast<PluginInstance*>(instance)\<close>\<close>

definition dynamic_cast_PluginInstance :: "QObject \<Rightarrow> QObject option" where
  "dynamic_cast_PluginInstance obj = (if is_PluginInstance obj then Some obj else None)"

definition QtPluginLoader_load ::
  "('j, 'p) QtPluginLoader \<Rightarrow> string \<times> ('j, 'p) QtPluginLoader" where
  "QtPluginLoader_load l =
     (case instance_result (loader l) of
        Some inst \<Rightarrow>
          (let l' = l\<lparr>instance_m := dynamic_cast_PluginInstance inst\<rparr> in
           if instance_m l' \<noteq> None then ([], l')
           else (''Plugin is not of type albert::PluginInstance.'', l'))
      | None \<Rightarrow> (errorString (loader l), l))"

text \<open>\<open>delete instance_\<close>: nothing happens for a null pointer.\<close>

definition delete_instance :: "QObject option \<Rightarrow> effect list" where
  "delete_instance p = (case p of None \<Rightarrow> [] | Some obj \<Rightarrow> [DeleteInstance obj])"

definition QtPluginLoader_unload ::
  "('j, 'p) QtPluginLoader \<Rightarrow> string \<times> ('j, 'p) QtPluginLoader \<times> effect list" where
  "QtPluginLoader_unload l =
     (let fx1 = delete_instance (instance_m l);
          l1 = l\<lparr>instance_m := None\<rparr>;
          fx2 = fx1 @ [NativeUnload]
      in ((if unload_result (loader l1) then [] else errorString (loader l1)), l1, fx2))"


section \<open>The trigger table of the settings window\<close>

datatype Column = Name | Trigger | Description

text \<open>\<open>(int)Column::...\<close>\<close>

fun column_number :: "Column \<Rightarrow> int" where
  "column_number Name = 0"
| "column_number Trigger = 1"
| "column_number Description = 2"

datatype ItemDataRole =
  DisplayRole | EditRole | ToolTipRole | CheckStateRole | FontRole | ForegroundRole | OtherRole int

text \<open>A query handler: the object a \<open>QueryHandler*\<close> points to, with what \<open>id()\<close> returns.\<close>

record QueryHandler =
  handler_address :: nat
  handler_id :: string

record HandlerConfig =
  config_trigger :: string
  config_enabled :: bool

record Entry =
  handler :: QueryHandler
  trigger :: string
  enabled :: bool

record QModelIndex =
  row :: int
  column :: int

text \<open>
  A \<open>QVariant\<close> holding a text, holding an unsigned number, or invalid, with the
  conversions \<open>toString()\<close> and \<open>toUInt()\<close>. For a text, \<open>toUInt()\<close> is Qt's
  reading of an arbitrary text as a number (it skips surrounding white space and knows
  signs): it is the parameter \<open>text_toUInt\<close>.
\<close>

datatype QVariant = VString string | VUInt nat | VInvalid

fun QVariant_toString :: "QVariant \<Rightarrow> string" where
  "QVariant_toString (VString s) = s"
| "QVariant_toString (VUInt n) = number n"
| "QVariant_toString VInvalid = []"

fun QVariant_toUInt :: "(string \<Rightarrow> nat) \<Rightarrow> QVariant \<Rightarrow> nat" where
  "QVariant_toUInt text_toUInt (VString s) = text_toUInt s"
| "QVariant_toUInt text_toUInt (VUInt n) = n"
| "QVariant_toUInt text_toUInt VInvalid = 0"

text \<open>
  The class \<open>QueryEngine\<close> is declared in \<open>queryengine.h\<close>, outside the files at hand:
  its state is the type \<open>'e\<close> and the three members the table calls are parameters.
\<close>

record 'e QueryEngine_api =
  setTrigger :: "QueryHandler \<Rightarrow> string \<Rightarrow> 'e \<Rightarrow> 'e"
  setEnabled :: "QueryHandler \<Rightarrow> bool \<Rightarrow> 'e \<Rightarrow> 'e"
  handlerConfig :: "'e \<Rightarrow> (QueryHandler \<times> HandlerConfig) list"

datatype engine_call =
    Call_setTrigger QueryHandler string
  | Call_setEnabled QueryHandler bool

datatype signal = DataChanged QModelIndex QModelIndex "ItemDataRole list"

text \<open>
  The table model: its member \<open>query_handlers\<close>, the engine it refers to, and two
  histories: the calls it has made on the engine and the signals it has emitted.
\<close>

record 'e TriggerModel =
  query_handlers :: "Entry list"
  engine :: 'e
  engine_calls :: "engine_call list"
  emitted :: "signal list"

text \<open>
  \<open>update()\<close>. The handlers have distinct ids, so that \<open>std::sort\<close> has one result.
\<close>

definition TriggerModel_update :: "'e QueryEngine_api \<Rightarrow> 'e TriggerModel \<Rightarrow> 'e TriggerModel" where
  "TriggerModel_update api m =
     m\<lparr>query_handlers :=
         sort_key (\<lambda>e. handler_id (handler e))
           (map (\<lambda>(h, config). \<lparr>handler = h, trigger = config_trigger config,
                                 enabled = config_enabled config\<rparr>)
                (handlerConfig api (engine m)))\<rparr>"

text \<open>\<open>QAbstractTableModel::index(row, column)\<close>: the invalid index outside the table.\<close>

definition model_index :: "'e TriggerModel \<Rightarrow> int \<Rightarrow> int \<Rightarrow> QModelIndex" where
  "model_index m r c =
     (if 0 \<le> r \<and> r < int (length (query_handlers m)) \<and> 0 \<le> c \<and> c < 3
      then \<lparr>row = r, column = c\<rparr> else \<lparr>row = - 1, column = - 1\<rparr>)"

text \<open>
  \<open>query_handlers[i]\<close> outside the vector is undefined behaviour in C++; the model
  reports it.
\<close>

datatype fault = IndexOutOfRange

definition at_row :: "'e TriggerModel \<Rightarrow> int \<Rightarrow> fault + Entry" where
  "at_row m r =
     (if 0 \<le> r \<and> r < int (length (query_handlers m))
      then Inr (query_handlers m ! nat r) else Inl IndexOutOfRange)"

text \<open>\<open>Qt::Checked\<close>\<close>

definition Qt_Checked :: nat where
  "Qt_Checked = 2"

definition TriggerModel_setData ::
  "(string \<Rightarrow> nat) \<Rightarrow> 'e QueryEngine_api \<Rightarrow> 'e TriggerModel \<Rightarrow> QModelIndex \<Rightarrow> QVariant \<Rightarrow>
   ItemDataRole \<Rightarrow> fault + (bool \<times> 'e TriggerModel)" where
  "TriggerModel_setData text_toUInt api m idx val role =
     (if column idx = column_number Trigger then
        if role = EditRole then
          if QVariant_toString val = [] then Inr (False, m)
          else
            (case at_row m (row idx) of
               Inl f \<Rightarrow> Inl f
             | Inr e \<Rightarrow>
                 (let m1 = m\<lparr>engine := setTrigger api (handler e) (QVariant_toString val) (engine m),
                              engine_calls := engine_calls m
                                @ [Call_setTrigger (handler e) (QVariant_toString val)]\<rparr>;
                      m2 = TriggerModel_update api m1;
                      m3 = m2\<lparr>emitted := emitted m2
                                @ [DataChanged (model_index m2 0 (column_number Trigger))
                                               (model_index m2 0 (column_number Trigger))
                                               [DisplayRole]]\<rparr>
                  in Inr (True, m3)))
        else if role = CheckStateRole then
          (case at_row m (row idx) of
             Inl f \<Rightarrow> Inl f
           | Inr e \<Rightarrow>
               (let m1 = m\<lparr>engine := setEnabled api (handler e)
                                        (QVariant_toUInt text_toUInt val = Qt_Checked) (engine m),
                            engine_calls := engine_calls m
                              @ [Call_setEnabled (handler e) (QVariant_toUInt text_toUInt val = Qt_Checked)]\<rparr>;
                    m2 = TriggerModel_update api m1;
                    m3 = m2\<lparr>emitted := emitted m2 @ [DataChanged idx idx [CheckStateRole]]\<rparr>
                in Inr (True, m3)))
        else Inr (False, m)
      else Inr (False, m))"


section \<open>Naming the validation errors\<close>

text \<open>The fixed messages of the validation, and the openings of the three IID messages.\<close>

definition e_version :: string where
  "e_version = ''Invalid version scheme. Use '<version>.<patch>'.''"

definition e_id :: string where
  "e_id = ''Invalid plugin id. Use [a-z0-9_].''"

definition e_name :: string where
  "e_name = [CHR 0x27] @ ''name'' @ [CHR 0x27] @ '' must not be empty.''"

definition e_description :: string where
  "e_description = [CHR 0x27] @ ''description'' @ [CHR 0x27] @ '' must not be empty.''"

definition is_invalid_iid_error :: "string \<Rightarrow> bool" where
  "is_invalid_iid_error e = prefix ''Invalid IID pattern: '' e"

definition is_major_error :: "string \<Rightarrow> bool" where
  "is_major_error e = prefix ''Incompatible major version: '' e"

definition is_minor_error :: "string \<Rightarrow> bool" where
  "is_minor_error e = prefix ''Incompatible minor version: '' e"

text \<open>The characters \<open>a-z0-9_\<close>.\<close>

definition id_class :: "(char \<times> char) list" where
  "id_class = [(CHR ''a'', CHR ''z''), (CHR ''0'', CHR ''9''), (CHR ''_'', CHR ''_'')]"


section \<open>Concrete plugins, loaders and tables\<close>

definition no_string_list :: "unit QJsonValue option \<Rightarrow> string list" where
  "no_string_list v = []"

definition locale_de_AT :: QLocale where
  "locale_de_AT = \<lparr>locale_name = ''de_AT'', languageCode = ''de''\<rparr>"

definition md_ok :: PluginMetaData where
  "md_ok = \<lparr> iid = ''org.albert.PluginInterface/0.5'', plugin_id = ''files'', version = ''1.2'',
     name = ''Files'', description = ''Find files'', license = [], url = [], authors = [],
     runtime_dependencies = [], binary_dependencies = [], third_party_credits = [],
     load_type = User \<rparr>"

definition json_ok :: "unit QJsonObject" where
  "json_ok = [''id'' \<mapsto> String ''files'', ''version'' \<mapsto> String ''1.2'',
              ''name'' \<mapsto> String ''Files'', ''description'' \<mapsto> String ''Find files'']"

definition json_de :: "unit QJsonObject" where
  "json_de = [''name'' \<mapsto> String ''Files'', ''name[de]'' \<mapsto> String ''Dateien'',
              ''name[de_AT]'' \<mapsto> String [], ''description'' \<mapsto> String ''Find files'',
              ''description[de_AT]'' \<mapsto> Other ()]"

definition obj_plugin :: QObject where
  "obj_plugin = \<lparr>address = 1, is_PluginInstance = True\<rparr>"

definition obj_other :: QObject where
  "obj_other = \<lparr>address = 2, is_PluginInstance = False\<rparr>"

definition ql_ok :: "unit QPluginLoader" where
  "ql_ok = \<lparr> metaData_IID = Some (String ''org.albert.PluginInterface/0.5''),
       metaData_MetaData = json_ok, instance_result = Some obj_plugin,
       unload_result = False, errorString = ''Cannot unload library'' \<rparr>"

definition ql_no_iid :: "unit QPluginLoader" where
  "ql_no_iid = \<lparr> metaData_IID = None, metaData_MetaData = json_ok,
       instance_result = None, unload_result = True, errorString = [] \<rparr>"

definition loader_loaded :: "(unit, unit) QtPluginLoader" where
  "loader_loaded = \<lparr> path = ''/plugins/files.so'', state = Loaded, loader = ql_ok,
       provider_m = (), metadata_m = md_ok, instance_m = Some obj_plugin \<rparr>"

definition handler_files :: QueryHandler where
  "handler_files = \<lparr>handler_address = 7, handler_id = ''files''\<rparr>"

text \<open>An engine whose state is its configuration table.\<close>

definition table_engine :: "(QueryHandler \<times> HandlerConfig) list QueryEngine_api" where
  "table_engine =
     \<lparr> setTrigger = (\<lambda>h t e. map (\<lambda>(h', c). (h', if h' = h then c\<lparr>config_trigger := t\<rparr> else c)) e),
       setEnabled = (\<lambda>h b e. map (\<lambda>(h', c). (h', if h' = h then c\<lparr>config_enabled := b\<rparr> else c)) e),
       handlerConfig = (\<lambda>e. e) \<rparr>"

definition model_files :: "(QueryHandler \<times> HandlerConfig) list TriggerModel" where
  "model_files =
     \<lparr> query_handlers = [\<lparr>handler = handler_files, trigger = ''f '', enabled = True\<rparr>],
       engine = [(handler_files, \<lparr>config_trigger = ''f '', config_enabled = True\<rparr>)],
       engine_calls = [], emitted = [] \<rparr>"


section \<open>Evaluation\<close>

declare number.simps [simp del]
declare search.simps [simp del]

lemmas rx_eval = rx_match_def search.simps hasMatch_def regex_iid_def regex_version_def
  regex_id_def is_digit_def LF_def

lemma number_small: "n < 10 \<Longrightarrow> number n = [digit_char n]"
  by (simp add: number.simps)

lemma toUInt_examples:
  "toUInt ''0'' = 0" "toUInt ''1'' = 1" "toUInt ''5'' = 5" "toUInt ''9'' = 9"
  by (simp_all add: toUInt_def decimal_def digit_value_def is_digit_def)

lemma iid_examples:
  "rx_match regex_iid ''org.albert.PluginInterface/0.5'' = Some [''0'', ''5'']"
  "rx_match regex_iid ''org.albert.PluginInterface/1.9'' = Some [''1'', ''9'']"
  "rx_match regex_iid ''org.albert.PluginInterface/0.9'' = Some [''0'', ''9'']"
  "rx_match regex_iid [] = None"
  by (simp_all add: rx_eval)

lemma version_examples:
  "hasMatch (rx_match regex_version ''1.2'')"
  "\<not> hasMatch (rx_match regex_version ''one'')"
  "\<not> hasMatch (rx_match regex_version [])"
  by (simp_all add: rx_eval)

lemma id_examples:
  "hasMatch (rx_match regex_id ''files'')"
  "hasMatch (rx_match regex_id ''My-Plugin'')"
  "\<not> hasMatch (rx_match regex_id [])"
  by (simp_all add: rx_eval)

lemma iid_errors_examples:
  "iid_errors 0 5 ''org.albert.PluginInterface/0.5'' = []"
  "iid_errors 0 5 ''org.albert.PluginInterface/1.9'' = [''Incompatible major version: 1. Expected: 0.'']"
  "iid_errors 0 5 ''org.albert.PluginInterface/0.9''
     = [''Incompatible minor version: 9. Supported up to: 5.'']"
  by (simp_all add: iid_errors_def iid_examples toUInt_examples number_small digit_char_def)

lemma validate_md_ok: "validate_metadata 0 5 md_ok = []"
  by (simp add: validate_metadata_def md_ok_def iid_errors_examples version_examples id_examples)

lemma extract_json_ok:
  "extract_metadata no_string_list locale_de_AT ''org.albert.PluginInterface/0.5'' json_ok = md_ok"
  by (simp add: extract_metadata_def md_ok_def json_ok_def toString_def fetchLocalizedMetadata_def
      localized_key_def locale_de_AT_def no_string_list_def)


section \<open>Validation of the metadata\<close>

text \<open>
  C1. A module whose name and description are empty and whose version string does not
  match the version pattern gets an error entry for each of the three rules: the three
  messages are in the list of errors, they differ from each other, and so the list has at
  least three distinct entries.
\<close>

theorem validation_collects_all_errors:
  assumes "name md = []" and "description md = []"
    and "\<not> hasMatch (rx_match regex_version (version md))"
  shows "e_version \<in> set (validate_metadata vmajor vminor md)
     \<and> e_name \<in> set (validate_metadata vmajor vminor md)
     \<and> e_description \<in> set (validate_metadata vmajor vminor md)
     \<and> distinct [e_version, e_name, e_description]
     \<and> 3 \<le> card (set (validate_metadata vmajor vminor md))"
proof -
  let ?E = "set (validate_metadata vmajor vminor md)"
  have v: "e_version \<in> ?E"
    using assms(3) by (simp add: validate_metadata_def e_version_def)
  have n: "e_name \<in> ?E"
    using assms(1) by (simp add: validate_metadata_def e_name_def)
  have d: "e_description \<in> ?E"
    using assms(2) by (simp add: validate_metadata_def e_description_def)
  have dist: "distinct [e_version, e_name, e_description]"
    by (simp add: e_version_def e_name_def e_description_def)
  have "set [e_version, e_name, e_description] \<subseteq> ?E"
    using v n d by simp
  then have "card (set [e_version, e_name, e_description]) \<le> card ?E"
    by (intro card_mono) simp_all
  moreover have "card (set [e_version, e_name, e_description]) = 3"
    using distinct_card [OF dist] by simp
  ultimately show ?thesis
    using v n d dist by simp
qed

theorem validation_collects_all_errors_witness:
  "name (md_ok\<lparr>name := [], description := [], version := ''one''\<rparr>) = []
   \<and> description (md_ok\<lparr>name := [], description := [], version := ''one''\<rparr>) = []
   \<and> \<not> hasMatch (rx_match regex_version
          (version (md_ok\<lparr>name := [], description := [], version := ''one''\<rparr>)))
   \<and> validate_metadata 0 5 (md_ok\<lparr>name := [], description := [], version := ''one''\<rparr>)
       = [e_version, e_name, e_description]
   \<and> 3 \<le> card (set (validate_metadata 0 5
                (md_ok\<lparr>name := [], description := [], version := ''one''\<rparr>)))"
proof -
  let ?md = "md_ok\<lparr>name := [], description := [], version := ''one''\<rparr>"
  have h1: "name ?md = []" and h2: "description ?md = []"
    by simp_all
  have h3: "\<not> hasMatch (rx_match regex_version (version ?md))"
    by (simp add: version_examples)
  have e: "validate_metadata 0 5 ?md = [e_version, e_name, e_description]"
    by (simp add: validate_metadata_def md_ok_def iid_errors_examples version_examples
        id_examples e_version_def e_name_def e_description_def)
  show ?thesis
    using validation_collects_all_errors [OF h1 h2 h3, of 0 5] h1 h2 h3 e by simp
qed

text \<open>
  The pattern of the plugin id is not anchored and names one character: it is found in
  an id as soon as one character of the id is in \<open>a-z0-9_\<close>.
\<close>

lemma search_single_class:
  "search [Class cs] b s = (if list_ex (in_class cs) s then Some [] else None)"
  by (induction s arbitrary: b) (simp_all add: search.simps)

lemma id_error_iff:
  "e_id \<in> set (validate_metadata vmajor vminor md)
     \<longleftrightarrow> \<not> list_ex (in_class id_class) (plugin_id md)"
proof -
  have "hasMatch (rx_match regex_id (plugin_id md)) = list_ex (in_class id_class) (plugin_id md)"
    by (simp add: hasMatch_def rx_match_def regex_id_def search_single_class id_class_def)
  moreover have "e_id \<notin> set (iid_errors vmajor vminor (iid md))"
    by (simp add: iid_errors_def e_id_def Let_def split: option.splits)
  ultimately show ?thesis
    by (simp add: validate_metadata_def e_id_def)
qed

text \<open>
  C4. The id \<open>My-Plugin\<close> has characters outside \<open>a-z0-9_\<close> (the capitals and the
  hyphen), and a module with this id and otherwise valid metadata passes the validation
  with no error at all, so without the message \<open>Invalid plugin id\<close>.
\<close>

theorem id_check_accepts_foreign_characters:
  "\<not> list_all (in_class id_class) ''My-Plugin''
   \<and> validate_metadata 0 5 (md_ok\<lparr>plugin_id := ''My-Plugin''\<rparr>) = []"
  by (simp add: validate_metadata_def md_ok_def iid_errors_examples version_examples
      id_examples id_class_def)

text \<open>The three IID messages come from the IID check only.\<close>

lemma validate_kinds:
  "list_ex is_invalid_iid_error (validate_metadata vmajor vminor md)
     = list_ex is_invalid_iid_error (iid_errors vmajor vminor (iid md))"
  "list_ex is_major_error (validate_metadata vmajor vminor md)
     = list_ex is_major_error (iid_errors vmajor vminor (iid md))"
  "list_ex is_minor_error (validate_metadata vmajor vminor md)
     = list_ex is_minor_error (iid_errors vmajor vminor (iid md))"
  by (simp_all add: validate_metadata_def is_invalid_iid_error_def is_major_error_def
      is_minor_error_def)

lemma iid_errors_kinds:
  "(case rx_match regex_iid i of
      None \<Rightarrow> list_ex is_invalid_iid_error (iid_errors vmajor vminor i)
              \<and> \<not> list_ex is_major_error (iid_errors vmajor vminor i)
              \<and> \<not> list_ex is_minor_error (iid_errors vmajor vminor i)
    | Some caps \<Rightarrow>
        \<not> list_ex is_invalid_iid_error (iid_errors vmajor vminor i)
        \<and> (list_ex is_major_error (iid_errors vmajor vminor i) \<longleftrightarrow> toUInt (caps ! 0) \<noteq> vmajor)
        \<and> (list_ex is_minor_error (iid_errors vmajor vminor i) \<longleftrightarrow>
             toUInt (caps ! 0) = vmajor \<and> vminor < toUInt (caps ! 1)))"
  by (simp add: iid_errors_def is_invalid_iid_error_def is_major_error_def is_minor_error_def
      Let_def split: option.splits)

text \<open>
  An interface id of the exact form \<open>org.albert.PluginInterface/M.N\<close>, with \<open>M\<close>
  and \<open>N\<close> non-empty runs of digits: the pattern is found and captures \<open>M\<close> and \<open>N\<close>,
  and \<open>toUInt\<close> reads a run of digits as its decimal value when that fits 32 bits.
\<close>

lemma takeWhile_digits:
  assumes "list_all is_digit ds" and "r = [] \<or> \<not> is_digit (hd r)"
  shows "takeWhile is_digit (ds @ r) = ds"
proof -
  have "takeWhile is_digit r = []"
    using assms(2) by (cases r) auto
  then show ?thesis
    using assms(1) by (simp add: list_all_iff)
qed

lemma first_some_hit:
  assumes "0 < n" and "f n = Some r"
  shows "first_some f n = Some r"
  using assms by (cases n) simp_all

lemma match_digits_all:
  assumes "ds \<noteq> []" and "list_all is_digit ds" and "r = [] \<or> \<not> is_digit (hd r)"
    and "match_items p False r (caps @ [ds]) = Some res"
  shows "match_items (Digits # p) b (ds @ r) caps = Some res"
proof -
  have "length (takeWhile is_digit (ds @ r)) = length ds"
    using takeWhile_digits [OF assms(2,3)] by simp
  moreover have "0 < length ds"
    using assms(1) by simp
  ultimately show ?thesis
    using assms(4) by (simp add: first_some_hit)
qed

lemma rx_match_iid_exact:
  assumes "M \<noteq> []" and "list_all is_digit M" and "N \<noteq> []" and "list_all is_digit N"
  shows "rx_match regex_iid (''org.albert.PluginInterface/'' @ M @ ''.'' @ N) = Some [M, N]"
proof -
  have n: "match_items [Digits] False (N @ []) [M] = Some ([M, N], [])"
    by (rule match_digits_all [OF assms(3,4)]) simp_all
  have d: "match_items [Dot, Digits] False (''.'' @ N) ([] @ [M]) = Some ([M, N], [])"
    using n by (simp add: LF_def)
  have m: "match_items [Digits, Dot, Digits] False (M @ ''.'' @ N) [] = Some ([M, N], [])"
    by (rule match_digits_all [OF assms(1,2) _ d]) (simp add: is_digit_def)
  show ?thesis
    unfolding rx_match_def regex_iid_def
    using m by (subst search.simps) (simp add: LF_def del: match_items.simps(5))
qed

lemma toUInt_decimal:
  "ds \<noteq> [] \<Longrightarrow> list_all is_digit ds \<Longrightarrow> decimal ds < 2 ^ 32 \<Longrightarrow> toUInt ds = decimal ds"
  by (simp add: toUInt_def)

lemma iid_errors_exact:
  assumes "M \<noteq> []" and "list_all is_digit M" and "decimal M < 2 ^ 32"
    and "N \<noteq> []" and "list_all is_digit N" and "decimal N < 2 ^ 32"
  shows "iid_errors vmajor vminor (''org.albert.PluginInterface/'' @ M @ ''.'' @ N) =
     (if decimal M \<noteq> vmajor then
        [''Incompatible major version: '' @ number (decimal M)
           @ ''. Expected: '' @ number vmajor @ ''.'']
      else if vminor < decimal N then
        [''Incompatible minor version: '' @ number (decimal N)
           @ ''. Supported up to: '' @ number vminor @ ''.'']
      else [])"
  using rx_match_iid_exact [OF assms(1,2,4,5)] toUInt_decimal [OF assms(1,2,3)]
    toUInt_decimal [OF assms(4,5,6)]
  by (simp add: iid_errors_def)

text \<open>
  Where the pattern is found, the subject holds the text \<open>PluginInterface/\<close>.
\<close>

lemma lit_matchE:
  assumes "match_items (Lit c # r) b s caps = Some res"
  obtains xs where "s = c # xs" and "match_items r False xs caps = Some res"
  using assms by (cases s) (auto split: if_splits)

lemma dot_matchE:
  assumes "match_items (Dot # r) b s caps = Some res"
  obtains x xs where "s = x # xs" and "match_items r False xs caps = Some res"
  using assms by (cases s) (auto split: if_splits)

lemma iid_match_shape:
  assumes "match_items regex_iid b s [] = Some res"
  shows "sublist ''PluginInterface/'' s"
  using assms unfolding regex_iid_def
  by (elim lit_matchE dot_matchE) (simp add: sublist_Cons_right del: match_items.simps)

lemma iid_search_shape:
  "search regex_iid b s = Some caps \<Longrightarrow> sublist ''PluginInterface/'' s"
proof (induction s arbitrary: b)
  case Nil
  then show ?case
    by (subst (asm) search.simps) (auto split: option.splits dest: iid_match_shape)
next
  case (Cons x xs)
  show ?case
  proof (cases "match_items regex_iid b (x # xs) []")
    case None
    then have "search regex_iid False xs = Some caps"
      using Cons.prems by (subst (asm) search.simps) simp
    then have "sublist ''PluginInterface/'' xs"
      by (rule Cons.IH)
    then show ?thesis
      by (simp add: sublist_Cons_right)
  next
    case (Some res)
    then show ?thesis
      by (rule iid_match_shape)
  qed
qed

lemma iid_not_found:
  "\<not> sublist ''PluginInterface/'' i \<Longrightarrow> rx_match regex_iid i = None"
  using iid_search_shape [of True i]
  by (cases "rx_match regex_iid i") (auto simp: rx_match_def)

lemma iid_kinds_not_found:
  assumes "rx_match regex_iid (iid md) = None"
  shows "list_ex is_invalid_iid_error (validate_metadata vmajor vminor md)
     \<and> \<not> list_ex is_major_error (validate_metadata vmajor vminor md)
     \<and> \<not> list_ex is_minor_error (validate_metadata vmajor vminor md)"
  using iid_errors_kinds [where i = "iid md" and vmajor = vmajor and vminor = vminor] assms
  by (simp add: validate_kinds)

lemma iid_kinds_exact:
  assumes "iid md = ''org.albert.PluginInterface/'' @ M @ ''.'' @ N"
    and "M \<noteq> []" and "list_all is_digit M" and "decimal M < 2 ^ 32"
    and "N \<noteq> []" and "list_all is_digit N" and "decimal N < 2 ^ 32"
  shows "\<not> list_ex is_invalid_iid_error (validate_metadata vmajor vminor md)
     \<and> (list_ex is_major_error (validate_metadata vmajor vminor md)
          \<longleftrightarrow> decimal M \<noteq> vmajor)
     \<and> (list_ex is_minor_error (validate_metadata vmajor vminor md)
          \<longleftrightarrow> decimal M = vmajor \<and> vminor < decimal N)"
proof -
  have m: "rx_match regex_iid (iid md) = Some [M, N]"
    using rx_match_iid_exact [OF assms(2,3,5,6)] assms(1) by simp
  have "toUInt ([M, N] ! 0) = decimal M" and "toUInt ([M, N] ! 1) = decimal N"
    using toUInt_decimal [OF assms(2,3,4)] toUInt_decimal [OF assms(5,6,7)] by simp_all
  then show ?thesis
    using iid_errors_kinds [where i = "iid md" and vmajor = vmajor and vminor = vminor] m
    by (simp add: validate_kinds)
qed

text \<open>
  C5, as the code has it by design. For an interface id that is exactly
  \<open>org.albert.PluginInterface/M.N\<close>, with \<open>M\<close> and \<open>N\<close> non-empty runs of decimal
  digits whose values fit 32 bits, there is no invalid-pattern message; the major-version
  message is there exactly when the number \<open>M\<close> differs from the runtime major; the
  minor-version message is there exactly when \<open>M\<close> equals the runtime major and \<open>N\<close> is
  greater than the runtime minor. An interface id in which the pattern of the loader is
  not found, and so every interface id without the text \<open>PluginInterface/\<close>, gets the
  invalid-pattern message and neither version message.
\<close>

theorem iid_validation_exact:
  "(iid md = ''org.albert.PluginInterface/'' @ M @ ''.'' @ N
      \<and> M \<noteq> [] \<and> list_all is_digit M \<and> decimal M < 2 ^ 32
      \<and> N \<noteq> [] \<and> list_all is_digit N \<and> decimal N < 2 ^ 32
    \<longrightarrow> \<not> list_ex is_invalid_iid_error (validate_metadata vmajor vminor md)
        \<and> (list_ex is_major_error (validate_metadata vmajor vminor md)
             \<longleftrightarrow> decimal M \<noteq> vmajor)
        \<and> (list_ex is_minor_error (validate_metadata vmajor vminor md)
             \<longleftrightarrow> decimal M = vmajor \<and> vminor < decimal N))
   \<and> (rx_match regex_iid (iid md) = None \<or> \<not> sublist ''PluginInterface/'' (iid md)
    \<longrightarrow> list_ex is_invalid_iid_error (validate_metadata vmajor vminor md)
        \<and> \<not> list_ex is_major_error (validate_metadata vmajor vminor md)
        \<and> \<not> list_ex is_minor_error (validate_metadata vmajor vminor md))"
proof (intro conjI impI)
  assume "rx_match regex_iid (iid md) = None \<or> \<not> sublist ''PluginInterface/'' (iid md)"
  then have n: "rx_match regex_iid (iid md) = None"
    using iid_not_found by blast
  show "list_ex is_invalid_iid_error (validate_metadata vmajor vminor md)"
    and "\<not> list_ex is_major_error (validate_metadata vmajor vminor md)"
    and "\<not> list_ex is_minor_error (validate_metadata vmajor vminor md)"
    using iid_kinds_not_found [OF n] by simp_all
next
  assume e: "iid md = ''org.albert.PluginInterface/'' @ M @ ''.'' @ N
      \<and> M \<noteq> [] \<and> list_all is_digit M \<and> decimal M < 2 ^ 32
      \<and> N \<noteq> [] \<and> list_all is_digit N \<and> decimal N < 2 ^ 32"
  then have k: "\<not> list_ex is_invalid_iid_error (validate_metadata vmajor vminor md)
     \<and> (list_ex is_major_error (validate_metadata vmajor vminor md)
          \<longleftrightarrow> decimal M \<noteq> vmajor)
     \<and> (list_ex is_minor_error (validate_metadata vmajor vminor md)
          \<longleftrightarrow> decimal M = vmajor \<and> vminor < decimal N)"
    by (intro iid_kinds_exact) simp_all
  show "\<not> list_ex is_invalid_iid_error (validate_metadata vmajor vminor md)"
    and "list_ex is_major_error (validate_metadata vmajor vminor md)
          \<longleftrightarrow> decimal M \<noteq> vmajor"
    and "list_ex is_minor_error (validate_metadata vmajor vminor md)
          \<longleftrightarrow> decimal M = vmajor \<and> vminor < decimal N"
    using k by simp_all
qed

lemma decimal_examples: "decimal ''0'' = 0" "decimal ''9'' = 9"
  by (simp_all add: decimal_def digit_value_def)

theorem iid_validation_exact_witness:
  "iid (md_ok\<lparr>iid := ''org.albert.PluginInterface/0.9''\<rparr>)
      = ''org.albert.PluginInterface/'' @ ''0'' @ ''.'' @ ''9''
   \<and> list_all is_digit ''0'' \<and> decimal ''0'' = 0
   \<and> list_all is_digit ''9'' \<and> decimal ''9'' = 9
   \<and> \<not> list_ex is_invalid_iid_error
         (validate_metadata 0 5 (md_ok\<lparr>iid := ''org.albert.PluginInterface/0.9''\<rparr>))
   \<and> \<not> list_ex is_major_error
         (validate_metadata 0 5 (md_ok\<lparr>iid := ''org.albert.PluginInterface/0.9''\<rparr>))
   \<and> list_ex is_minor_error
         (validate_metadata 0 5 (md_ok\<lparr>iid := ''org.albert.PluginInterface/0.9''\<rparr>))
   \<and> \<not> sublist ''PluginInterface/'' (iid (md_ok\<lparr>iid := ''org.albert''\<rparr>))
   \<and> list_ex is_invalid_iid_error (validate_metadata 0 5 (md_ok\<lparr>iid := ''org.albert''\<rparr>))
   \<and> \<not> list_ex is_major_error (validate_metadata 0 5 (md_ok\<lparr>iid := ''org.albert''\<rparr>))
   \<and> \<not> list_ex is_minor_error (validate_metadata 0 5 (md_ok\<lparr>iid := ''org.albert''\<rparr>))"
proof -
  have f: "iid (md_ok\<lparr>iid := ''org.albert.PluginInterface/0.9''\<rparr>)
      = ''org.albert.PluginInterface/'' @ ''0'' @ ''.'' @ ''9''"
    by simp
  have d: "list_all is_digit ''0''" "list_all is_digit ''9''"
    by (simp_all add: is_digit_def)
  have s: "\<not> sublist ''PluginInterface/'' (iid (md_ok\<lparr>iid := ''org.albert''\<rparr>))"
    by (simp add: sublist_Cons_right)
  show ?thesis
    using iid_validation_exact
      [where md = "md_ok\<lparr>iid := ''org.albert.PluginInterface/0.9''\<rparr>" and M = "''0''"
        and N = "''9''" and vmajor = 0 and vminor = 5]
      iid_validation_exact
      [where md = "md_ok\<lparr>iid := ''org.albert''\<rparr>" and vmajor = 0 and vminor = 5]
      f d s decimal_examples
    by simp
qed

text \<open>
  The interface id \<open>org.albert.PluginInterface/1.9\<close> against the runtime version 0.5:
  the pattern is found, the minor number 9 is greater than the runtime minor 5, and the
  only error is the one about the major version.
\<close>

theorem minor_error_counterexample:
  "rx_match regex_iid ''org.albert.PluginInterface/1.9'' = Some [''1'', ''9'']
   \<and> (5 :: nat) < toUInt ''9''
   \<and> validate_metadata 0 5 (md_ok\<lparr>iid := ''org.albert.PluginInterface/1.9''\<rparr>)
       = [''Incompatible major version: 1. Expected: 0.'']
   \<and> \<not> is_minor_error ''Incompatible major version: 1. Expected: 0.''"
  by (simp add: validate_metadata_def md_ok_def iid_errors_examples version_examples
      id_examples iid_examples toUInt_examples is_minor_error_def)


section \<open>Construction of a loader\<close>

text \<open>
  C7, as the code has it. With an empty IID the construction fails with the message
  \<open>Not an albert plugin\<close>, before any validation. With a non-empty IID it fails exactly
  when the list of validation errors is not empty, and the message is then the list
  joined with a comma and a space; with an empty list it yields the loader.
\<close>

theorem ctor_fails_iff_errors:
  "(toString (metaData_IID ql) = [] \<longrightarrow>
      QtPluginLoader_ctor tsl loc vmajor vminor st provider p ql
        = Inl ''Not an albert plugin'')
   \<and> (toString (metaData_IID ql) \<noteq> [] \<longrightarrow>
       (let md = extract_metadata tsl loc (toString (metaData_IID ql)) (metaData_MetaData ql);
            errors = validate_metadata vmajor vminor md
        in (errors \<noteq> [] \<longrightarrow>
              QtPluginLoader_ctor tsl loc vmajor vminor st provider p ql
                = Inl (join '', '' errors))
         \<and> (errors = [] \<longrightarrow>
              QtPluginLoader_ctor tsl loc vmajor vminor st provider p ql
                = Inr \<lparr> path = p, state = st, loader = ql, provider_m = provider,
                        metadata_m = md, instance_m = None \<rparr>)))"
  by (simp add: QtPluginLoader_ctor_def Let_def)

lemma validate_no_metadata:
  "validate_metadata 0 5 (extract_metadata no_string_list locale_de_AT
       ''org.albert.PluginInterface/0.5'' Map.empty)
     = [e_version, e_id, e_name, e_description]"
  by (simp add: validate_metadata_def extract_metadata_def toString_def
      fetchLocalizedMetadata_def iid_errors_examples version_examples id_examples
      e_version_def e_id_def e_name_def e_description_def)

theorem ctor_fails_iff_errors_witness:
  "toString (metaData_IID ql_ok) \<noteq> []
   \<and> QtPluginLoader_ctor no_string_list locale_de_AT 0 5 Unloaded () ''/plugins/files.so'' ql_ok
      = Inr \<lparr> path = ''/plugins/files.so'', state = Unloaded, loader = ql_ok, provider_m = (),
              metadata_m = md_ok, instance_m = None \<rparr>
   \<and> toString (metaData_IID (ql_ok\<lparr>metaData_MetaData := Map.empty\<rparr>)) \<noteq> []
   \<and> QtPluginLoader_ctor no_string_list locale_de_AT 0 5 Unloaded () ''/plugins/files.so''
        (ql_ok\<lparr>metaData_MetaData := Map.empty\<rparr>)
      = Inl (join '', '' [e_version, e_id, e_name, e_description])
   \<and> toString (metaData_IID ql_no_iid) = []
   \<and> QtPluginLoader_ctor no_string_list locale_de_AT 0 5 Unloaded () ''/plugins/files.so'' ql_no_iid
      = Inl ''Not an albert plugin''"
proof -
  have i: "toString (metaData_IID ql_ok) = ''org.albert.PluginInterface/0.5''"
    by (simp add: ql_ok_def toString_def)
  have m: "metaData_MetaData ql_ok = json_ok"
    by (simp add: ql_ok_def)
  have n: "toString (metaData_IID ql_no_iid) = []"
    by (simp add: ql_no_iid_def toString_def)
  show ?thesis
    using ctor_fails_iff_errors [where ql = ql_ok and tsl = no_string_list
        and loc = locale_de_AT and vmajor = 0 and vminor = 5 and st = Unloaded
        and provider = "()" and p = "''/plugins/files.so''"]
      ctor_fails_iff_errors [where ql = "ql_ok\<lparr>metaData_MetaData := Map.empty\<rparr>"
        and tsl = no_string_list and loc = locale_de_AT and vmajor = 0 and vminor = 5
        and st = Unloaded and provider = "()" and p = "''/plugins/files.so''"]
      ctor_fails_iff_errors [where ql = ql_no_iid and tsl = no_string_list
        and loc = locale_de_AT and vmajor = 0 and vminor = 5 and st = Unloaded
        and provider = "()" and p = "''/plugins/files.so''"]
    by (simp add: i m n extract_json_ok validate_md_ok validate_no_metadata Let_def
        del: join.simps)
qed

text \<open>
  A module without an IID and with otherwise valid metadata: the construction fails
  with \<open>Not an albert plugin\<close>, which is not the joined list of the validation errors
  of its metadata (that list holds the invalid-pattern message only).
\<close>

theorem ctor_failure_counterexample:
  "QtPluginLoader_ctor no_string_list locale_de_AT 0 5 Unloaded () ''/plugins/files.so'' ql_no_iid
     = Inl ''Not an albert plugin''
   \<and> join '', '' (validate_metadata 0 5
         (extract_metadata no_string_list locale_de_AT (toString (metaData_IID ql_no_iid))
            (metaData_MetaData ql_no_iid)))
       = ''Invalid IID pattern: '' @ [CHR 0x27, CHR 0x27] @ ''. Expected '' @ [CHR 0x27]
           @ regex_iid_pattern @ [CHR 0x27] @ ''.''
   \<and> ''Not an albert plugin'' \<noteq> ''Invalid IID pattern: '' @ [CHR 0x27, CHR 0x27]
           @ ''. Expected '' @ [CHR 0x27] @ regex_iid_pattern @ [CHR 0x27] @ ''.''"
proof -
  have n: "toString (metaData_IID ql_no_iid) = []" and m: "metaData_MetaData ql_no_iid = json_ok"
    by (simp_all add: ql_no_iid_def toString_def)
  have x: "extract_metadata no_string_list locale_de_AT [] json_ok = md_ok\<lparr>iid := []\<rparr>"
    by (simp add: extract_metadata_def md_ok_def json_ok_def toString_def
        fetchLocalizedMetadata_def localized_key_def locale_de_AT_def no_string_list_def)
  have v: "validate_metadata 0 5 (md_ok\<lparr>iid := []\<rparr>)
      = [''Invalid IID pattern: '' @ [CHR 0x27, CHR 0x27] @ ''. Expected '' @ [CHR 0x27]
           @ regex_iid_pattern @ [CHR 0x27] @ ''.'']"
    by (simp add: validate_metadata_def md_ok_def iid_errors_def iid_examples version_examples
        id_examples)
  show ?thesis
    by (simp add: QtPluginLoader_ctor_def n m x v)
qed

text \<open>The entry \<open>loadtype\<close> is not one of the keys the localized lookup reads.\<close>

lemma fetch_ignores_loadtype:
  "key = ''name'' \<or> key = ''description'' \<Longrightarrow>
   fetchLocalizedMetadata loc (raw(''loadtype'' := v)) key
     = fetchLocalizedMetadata loc raw key"
  by (auto simp: fetchLocalizedMetadata_def localized_key_def Let_def)

text \<open>
  C10. The load type is Frontend for the text \<open>frontend\<close>, NoUnload for \<open>nounload\<close>
  and User for every other value of the entry \<open>loadtype\<close> (a missing entry and an entry
  that is not a text read as the empty text); and the list of validation errors is the
  same whatever the entry \<open>loadtype\<close> holds, also when it is removed.
\<close>

theorem loadtype_total_and_silent:
  "load_type (extract_metadata tsl loc i raw) =
     (if toString (raw ''loadtype'') = ''frontend'' then Frontend
      else if toString (raw ''loadtype'') = ''nounload'' then NoUnload
      else User)
   \<and> validate_metadata vmajor vminor (extract_metadata tsl loc i (raw(''loadtype'' := v)))
     = validate_metadata vmajor vminor (extract_metadata tsl loc i raw)"
  by (simp add: extract_metadata_def validate_metadata_def fetch_ignores_loadtype Let_def)

theorem loadtype_total_and_silent_witness:
  "load_type (extract_metadata no_string_list locale_de_AT ''org.albert.PluginInterface/0.5''
       (json_ok(''loadtype'' \<mapsto> String ''frontend''))) = Frontend
   \<and> load_type (extract_metadata no_string_list locale_de_AT ''org.albert.PluginInterface/0.5''
       (json_ok(''loadtype'' \<mapsto> String ''nounload''))) = NoUnload
   \<and> load_type (extract_metadata no_string_list locale_de_AT ''org.albert.PluginInterface/0.5''
       (json_ok(''loadtype'' \<mapsto> String ''Frontend''))) = User
   \<and> load_type (extract_metadata no_string_list locale_de_AT ''org.albert.PluginInterface/0.5''
       (json_ok(''loadtype'' \<mapsto> String []))) = User
   \<and> load_type (extract_metadata no_string_list locale_de_AT ''org.albert.PluginInterface/0.5''
       json_ok) = User
   \<and> validate_metadata 0 5 (extract_metadata no_string_list locale_de_AT
        ''org.albert.PluginInterface/0.5'' (json_ok(''loadtype'' \<mapsto> String ''Frontend''))) = []"
proof -
  let ?i = "''org.albert.PluginInterface/0.5''"
  have n: "toString (json_ok ''loadtype'') = []"
    by (simp add: json_ok_def toString_def)
  have a: "load_type (extract_metadata no_string_list locale_de_AT ?i
       (json_ok(''loadtype'' \<mapsto> String ''frontend''))) = Frontend"
    using loadtype_total_and_silent [where tsl = no_string_list and loc = locale_de_AT
      and i = ?i and raw = "json_ok(''loadtype'' \<mapsto> String ''frontend'')"]
    by (simp add: toString_def)
  have b: "load_type (extract_metadata no_string_list locale_de_AT ?i
       (json_ok(''loadtype'' \<mapsto> String ''nounload''))) = NoUnload"
    using loadtype_total_and_silent [where tsl = no_string_list and loc = locale_de_AT
      and i = ?i and raw = "json_ok(''loadtype'' \<mapsto> String ''nounload'')"]
    by (simp add: toString_def)
  have c: "load_type (extract_metadata no_string_list locale_de_AT ?i
       (json_ok(''loadtype'' \<mapsto> String ''Frontend''))) = User"
    using loadtype_total_and_silent [where tsl = no_string_list and loc = locale_de_AT
      and i = ?i and raw = "json_ok(''loadtype'' \<mapsto> String ''Frontend'')"]
    by (simp add: toString_def)
  have d: "load_type (extract_metadata no_string_list locale_de_AT ?i
       (json_ok(''loadtype'' \<mapsto> String []))) = User"
    using loadtype_total_and_silent [where tsl = no_string_list and loc = locale_de_AT
      and i = ?i and raw = "json_ok(''loadtype'' \<mapsto> String [])"]
    by (simp add: toString_def)
  have e: "load_type (extract_metadata no_string_list locale_de_AT ?i json_ok) = User
     \<and> validate_metadata 0 5 (extract_metadata no_string_list locale_de_AT ?i
          (json_ok(''loadtype'' \<mapsto> String ''Frontend''))) = []"
    using loadtype_total_and_silent [where tsl = no_string_list and loc = locale_de_AT
      and i = ?i and raw = json_ok and v = "Some (String ''Frontend'')"
      and vmajor = 0 and vminor = 5]
    by (simp add: n extract_json_ok validate_md_ok)
  show ?thesis
    using a b c d e by simp
qed

text \<open>
  C8. The localized lookup is the fallback chain of the specification: the entry
  \<open>key[lang_COUNTRY]\<close> when it is a non-empty text, otherwise the entry \<open>key[lang]\<close>
  when it is a non-empty text, otherwise the value of the plain key.
\<close>

theorem fetchLocalizedMetadata_is_fallback_chain:
  "fetchLocalizedMetadata loc json key = spec_locale_chain loc json key"
  by (simp add: fetchLocalizedMetadata_def spec_locale_chain_def nonempty_entry_def
      toString_def List.map_filter_simps Let_def split: option.splits QJsonValue.splits)

theorem fetchLocalizedMetadata_is_fallback_chain_witness:
  "fetchLocalizedMetadata locale_de_AT json_de ''name'' = ''Dateien''
   \<and> spec_locale_chain locale_de_AT json_de ''name'' = ''Dateien''
   \<and> fetchLocalizedMetadata locale_de_AT json_de ''description'' = ''Find files''
   \<and> spec_locale_chain locale_de_AT json_de ''description'' = ''Find files''"
  using fetchLocalizedMetadata_is_fallback_chain [of locale_de_AT json_de "''name''"]
    fetchLocalizedMetadata_is_fallback_chain [of locale_de_AT json_de "''description''"]
  by (simp add: fetchLocalizedMetadata_def json_de_def toString_def localized_key_def
      locale_de_AT_def)


section \<open>Loading, unloading and destruction\<close>

text \<open>
  C6. When the native loader delivers an instance: if the instance is not a
  \<open>PluginInstance\<close>, \<open>load\<close> returns the message
  \<open>Plugin is not of type albert::PluginInstance.\<close>, the state of the loader is what
  it was (so the loader has not become Loaded) and the instance pointer is null; if it
  is one, \<open>load\<close> returns the empty string and the pointer refers to the instance.
\<close>

theorem load_checks_plugin_instance:
  assumes "instance_result (loader l) = Some inst"
  shows "(\<not> is_PluginInstance inst \<longrightarrow>
            fst (QtPluginLoader_load l) = ''Plugin is not of type albert::PluginInstance.''
            \<and> state (snd (QtPluginLoader_load l)) = state l
            \<and> instance_m (snd (QtPluginLoader_load l)) = None)
       \<and> (is_PluginInstance inst \<longrightarrow>
            fst (QtPluginLoader_load l) = []
            \<and> state (snd (QtPluginLoader_load l)) = state l
            \<and> instance_m (snd (QtPluginLoader_load l)) = Some inst)"
  using assms by (simp add: QtPluginLoader_load_def dynamic_cast_PluginInstance_def Let_def)

theorem load_checks_plugin_instance_witness:
  "instance_result (loader (loader_loaded\<lparr>state := Unloaded, instance_m := None,
       loader := ql_ok\<lparr>instance_result := Some obj_other\<rparr>\<rparr>)) = Some obj_other
   \<and> \<not> is_PluginInstance obj_other
   \<and> QtPluginLoader_load (loader_loaded\<lparr>state := Unloaded, instance_m := None,
       loader := ql_ok\<lparr>instance_result := Some obj_other\<rparr>\<rparr>)
      = (''Plugin is not of type albert::PluginInstance.'',
         loader_loaded\<lparr>state := Unloaded, instance_m := None,
           loader := ql_ok\<lparr>instance_result := Some obj_other\<rparr>\<rparr>)
   \<and> instance_result (loader (loader_loaded\<lparr>state := Unloaded, instance_m := None\<rparr>))
       = Some obj_plugin
   \<and> is_PluginInstance obj_plugin
   \<and> fst (QtPluginLoader_load (loader_loaded\<lparr>state := Unloaded, instance_m := None\<rparr>)) = []"
proof -
  let ?l = "loader_loaded\<lparr>state := Unloaded, instance_m := None,
       loader := ql_ok\<lparr>instance_result := Some obj_other\<rparr>\<rparr>"
  let ?k = "loader_loaded\<lparr>state := Unloaded, instance_m := None\<rparr>"
  have h: "instance_result (loader ?l) = Some obj_other"
    by simp
  have g: "instance_result (loader ?k) = Some obj_plugin"
    by (simp add: loader_loaded_def ql_ok_def)
  have o: "\<not> is_PluginInstance obj_other" and p: "is_PluginInstance obj_plugin"
    by (simp_all add: obj_other_def obj_plugin_def)
  have r: "QtPluginLoader_load ?l = (fst (QtPluginLoader_load ?l), ?l)"
    by (simp add: QtPluginLoader_load_def dynamic_cast_PluginInstance_def o)
  show ?thesis
    using load_checks_plugin_instance [OF h] load_checks_plugin_instance [OF g] h g o p r
    by simp
qed

text \<open>
  C2. For a loader in the state Loaded, \<open>unload\<close> deletes the instance (when the
  pointer is not null), then calls the native unload, in this order and nothing else; the
  instance pointer is null afterwards. When the native unload fails, \<open>unload\<close> returns
  the error string of the native loader and the state is still Loaded; a second call of
  \<open>unload\<close> then deletes nothing and calls the native unload again. When the native
  unload succeeds, \<open>unload\<close> returns the empty string.
\<close>

theorem unload_order_and_failure:
  assumes "state l = Loaded"
  shows "(case QtPluginLoader_unload l of
            (msg, l', fx) \<Rightarrow>
              fx = delete_instance (instance_m l) @ [NativeUnload]
              \<and> (\<forall>obj. instance_m l = Some obj \<longrightarrow> fx = [DeleteInstance obj, NativeUnload])
              \<and> instance_m l' = None
              \<and> (\<not> unload_result (loader l) \<longrightarrow>
                    msg = errorString (loader l) \<and> state l' = Loaded
                    \<and> QtPluginLoader_unload l' = (errorString (loader l), l', [NativeUnload]))
              \<and> (unload_result (loader l) \<longrightarrow> msg = []))"
  using assms by (simp add: QtPluginLoader_unload_def delete_instance_def Let_def)

theorem unload_order_and_failure_witness:
  "state loader_loaded = Loaded
   \<and> instance_m loader_loaded = Some obj_plugin
   \<and> \<not> unload_result (loader loader_loaded)
   \<and> QtPluginLoader_unload loader_loaded
      = (''Cannot unload library'', loader_loaded\<lparr>instance_m := None\<rparr>,
         [DeleteInstance obj_plugin, NativeUnload])
   \<and> state (loader_loaded\<lparr>instance_m := None\<rparr>) = Loaded"
proof -
  have h: "state loader_loaded = Loaded"
    and i: "instance_m loader_loaded = Some obj_plugin"
    and u: "\<not> unload_result (loader loader_loaded)"
    and e: "errorString (loader loader_loaded) = ''Cannot unload library''"
    by (simp_all add: loader_loaded_def ql_ok_def)
  have r: "fst (snd (QtPluginLoader_unload loader_loaded)) = loader_loaded\<lparr>instance_m := None\<rparr>"
    by (simp add: QtPluginLoader_unload_def Let_def)
  show ?thesis
    using unload_order_and_failure [OF h] h i u e r
    by (auto split: prod.splits)
qed

text \<open>
  C3. The destructor is a total function with no failure. For a loader whose state is
  not Unloaded its only effect is one warning, made of the text
  \<open>Logic error: QtPluginLoader destroyed in non Unloaded state:\<close> and the plugin id;
  for a loader in the state Unloaded it has no effect.
\<close>

theorem destructor_reports_non_unloaded:
  "(state l \<noteq> Unloaded \<longrightarrow>
      QtPluginLoader_dtor l =
        [Warning [''Logic error: QtPluginLoader destroyed in non Unloaded state:'',
                  plugin_id (metadata_m l)]])
   \<and> (state l = Unloaded \<longrightarrow> QtPluginLoader_dtor l = [])"
  by (simp add: QtPluginLoader_dtor_def)

theorem destructor_reports_non_unloaded_witness:
  "state loader_loaded \<noteq> Unloaded
   \<and> QtPluginLoader_dtor loader_loaded =
        [Warning [''Logic error: QtPluginLoader destroyed in non Unloaded state:'', ''files'']]
   \<and> state (loader_loaded\<lparr>state := Unloaded\<rparr>) = Unloaded
   \<and> QtPluginLoader_dtor (loader_loaded\<lparr>state := Unloaded\<rparr>) = []"
proof -
  have h: "state loader_loaded \<noteq> Unloaded"
    and i: "plugin_id (metadata_m loader_loaded) = ''files''"
    by (simp_all add: loader_loaded_def md_ok_def)
  show ?thesis
    using destructor_reports_non_unloaded [of loader_loaded]
      destructor_reports_non_unloaded [of "loader_loaded\<lparr>state := Unloaded\<rparr>"] h i
    by simp
qed


section \<open>Editing a trigger\<close>

lemma update_engine_calls: "engine_calls (TriggerModel_update api m) = engine_calls m"
  by (simp add: TriggerModel_update_def)

text \<open>
  C9. An edit of the trigger column with an empty value returns false and leaves the
  table model as it was: the engine, the calls made on it, the rows and the signals. And
  whatever the edit, \<open>setData\<close> adds no call of \<open>setTrigger\<close> with an empty trigger to
  the calls made on the engine.
\<close>

theorem setData_rejects_empty_trigger:
  "(column idx = column_number Trigger \<and> role = EditRole \<and> QVariant_toString val = [] \<longrightarrow>
      TriggerModel_setData text_toUInt api m idx val role = Inr (False, m))
   \<and> (\<forall>b m' h. TriggerModel_setData text_toUInt api m idx val role = Inr (b, m')
         \<and> Call_setTrigger h [] \<in> set (engine_calls m')
         \<longrightarrow> Call_setTrigger h [] \<in> set (engine_calls m))"
  by (auto simp: TriggerModel_setData_def update_engine_calls Let_def
      split: if_splits sum.splits)

theorem setData_rejects_empty_trigger_witness:
  "column \<lparr>row = 0, column = 1\<rparr> = column_number Trigger
   \<and> QVariant_toString (VString []) = []
   \<and> TriggerModel_setData toUInt table_engine model_files \<lparr>row = 0, column = 1\<rparr> (VString []) EditRole
      = Inr (False, model_files)
   \<and> TriggerModel_setData toUInt table_engine model_files \<lparr>row = 0, column = 1\<rparr> (VString ''ff '')
        EditRole
      = Inr (True,
          \<lparr> query_handlers = [\<lparr>handler = handler_files, trigger = ''ff '', enabled = True\<rparr>],
            engine = [(handler_files, \<lparr>config_trigger = ''ff '', config_enabled = True\<rparr>)],
            engine_calls = [Call_setTrigger handler_files ''ff ''],
            emitted = [DataChanged \<lparr>row = 0, column = 1\<rparr> \<lparr>row = 0, column = 1\<rparr> [DisplayRole]] \<rparr>)"
proof -
  have c: "column \<lparr>row = 0, column = 1\<rparr> = column_number Trigger"
    and v: "QVariant_toString (VString []) = []"
    by simp_all
  have s: "TriggerModel_setData toUInt table_engine model_files \<lparr>row = 0, column = 1\<rparr>
        (VString ''ff '') EditRole
      = Inr (True,
          \<lparr> query_handlers = [\<lparr>handler = handler_files, trigger = ''ff '', enabled = True\<rparr>],
            engine = [(handler_files, \<lparr>config_trigger = ''ff '', config_enabled = True\<rparr>)],
            engine_calls = [Call_setTrigger handler_files ''ff ''],
            emitted = [DataChanged \<lparr>row = 0, column = 1\<rparr> \<lparr>row = 0, column = 1\<rparr> [DisplayRole]] \<rparr>)"
    by (simp add: TriggerModel_setData_def at_row_def model_files_def table_engine_def
        TriggerModel_update_def model_index_def Let_def)
  show ?thesis
    using setData_rejects_empty_trigger
      [where idx = "\<lparr>row = 0, column = 1\<rparr>" and role = EditRole and val = "VString []"
        and api = table_engine and m = model_files and text_toUInt = toUInt] c v s
    by simp
qed

end
